theory Spec2Isabelle
  imports Main "HOL-Library.AList"
begin

chapter \<open>The knowledge-base synchronisation engine (app/kb/update.py)\<close>

section \<open>Python strings and slices\<close>

text \<open>
  A Python \<open>str\<close> is a sequence of Unicode code points.  Document bodies are modelled as
  lists of code points (\<open>nat\<close>), so that \<open>len\<close> counts what Python counts.  Paths, glob
  patterns, hashes and messages are HOL strings.
\<close>

type_synonym pystr = "nat list"

text \<open>The code points that \<open>str.strip()\<close> removes (those for which \<open>str.isspace\<close> holds).\<close>

definition py_isspace :: "nat \<Rightarrow> bool" where
  "py_isspace c \<longleftrightarrow>
     (9 \<le> c \<and> c \<le> 13) \<or> (28 \<le> c \<and> c \<le> 32) \<or> c = 133 \<or> c = 160 \<or> c = 5760 \<or>
     (8192 \<le> c \<and> c \<le> 8202) \<or> c = 8232 \<or> c = 8233 \<or> c = 8239 \<or> c = 8287 \<or> c = 12288"

definition py_strip :: "pystr \<Rightarrow> pystr" where
  "py_strip s = rev (dropWhile py_isspace (rev (dropWhile py_isspace s)))"

text \<open>
  \<open>s[i:j]\<close>: a negative index counts from the end, and both indices are clamped to the
  string.
\<close>

definition py_index :: "nat \<Rightarrow> int \<Rightarrow> nat" where
  "py_index n i = (if i < 0 then nat (max 0 (int n + i)) else min n (nat i))"

definition py_slice :: "'a list \<Rightarrow> int \<Rightarrow> int \<Rightarrow> 'a list" where
  "py_slice s i j = take (py_index (length s) j - py_index (length s) i) (drop (py_index (length s) i) s)"

section \<open>The chunker: \<open>_chunk_text\<close>\<close>

text \<open>
  The \<open>while\<close> loop of \<open>_chunk_text\<close>, with the loop variable \<open>i\<close> and the output list
  \<open>out\<close> as arguments.  When \<open>max_chars \<le> overlap\<close> the loop of the source never ends;
  the model then has the value \<open>None\<close>.
\<close>

partial_function (option) chunk_loop :: "pystr \<Rightarrow> int \<Rightarrow> int \<Rightarrow> int \<Rightarrow> pystr list \<Rightarrow> pystr list option" where
  "chunk_loop s max_chars overlap i out =
     (if i < int (length s) then
        (let j = min (int (length s)) (i + max_chars);
             out' = out @ [py_slice s i j]
         in if j \<ge> int (length s) then Some out'
            else chunk_loop s max_chars overlap (max 0 (j - overlap)) out')
      else Some out)"

declare chunk_loop.simps [code]

definition chunk_text :: "pystr \<Rightarrow> int \<Rightarrow> int \<Rightarrow> pystr list option" where
  "chunk_text text_str max_chars overlap =
     (let s = py_strip text_str in if s = [] then Some [] else chunk_loop s max_chars overlap 0 [])"

text \<open>
  Removing the overlap: the first fragment whole, then every later fragment without its
  first \<open>overlap\<close> characters.
\<close>

definition dechunk :: "nat \<Rightarrow> pystr list \<Rightarrow> pystr" where
  "dechunk overlap chunks =
     (case chunks of [] \<Rightarrow> [] | c # cs \<Rightarrow> c @ concat (map (drop overlap) cs))"

section \<open>The glob matcher: \<open>_matches_any\<close> and \<open>_should_include\<close>\<close>

subsection \<open>\<open>fnmatch.fnmatchcase\<close>\<close>

text \<open>
  The source matches with \<open>PurePosixPath(rel_posix).match(pat)\<close> of the Python standard
  library, which compares path components from the right with \<open>fnmatch.fnmatchcase\<close>.
  A component pattern is read as \<open>fnmatch.translate\<close> reads it: \<open>*\<close> is any run of
  characters, \<open>?\<close> any one character, \<open>[seq]\<close> a character class (negated by a leading
  \<open>!\<close>, a \<open>]\<close> right after the bracket is literal, an unclosed \<open>[\<close> is literal, an empty
  range such as \<open>z-a\<close> holds no character), anything else is literal.
\<close>

datatype glob_tok = Star | AnyChar | Lit char | CharClass bool string

text \<open>Membership in the body of a class: \<open>a-b\<close> is a range, any other character itself.\<close>

fun in_class :: "string \<Rightarrow> char \<Rightarrow> bool" where
  "in_class (a # m # b # r) c =
     (if m = CHR ''-'' then ((of_char a :: nat) \<le> of_char c \<and> (of_char c :: nat) \<le> of_char b) \<or> in_class r c
      else a = c \<or> in_class (m # b # r) c)"
| "in_class (a # r) c = (a = c \<or> in_class r c)"
| "in_class [] c = False"

text \<open>
  The text after an opening bracket: \<open>None\<close> when no bracket closes the class, else
  whether it is negated, its body, and the pattern text after the closing bracket.
\<close>

definition scan_class :: "string \<Rightarrow> (bool \<times> string \<times> string) option" where
  "scan_class cs =
     (let neg = (cs \<noteq> [] \<and> hd cs = CHR ''!'');
          a = (if neg then tl cs else cs);
          lead = (if a \<noteq> [] \<and> hd a = CHR '']'' then [CHR '']''] else []);
          b = (if a \<noteq> [] \<and> hd a = CHR '']'' then tl a else a)
      in if CHR '']'' \<in> set b
         then Some (neg, lead @ takeWhile (\<lambda>c. c \<noteq> CHR '']'') b, tl (dropWhile (\<lambda>c. c \<noteq> CHR '']'') b))
         else None)"

function translate :: "string \<Rightarrow> glob_tok list" where
  "translate [] = []"
| "translate (c # cs) =
     (if c = CHR ''*'' then Star # translate cs
      else if c = CHR ''?'' then AnyChar # translate cs
      else if c = CHR ''['' then
        (case scan_class cs of
           None \<Rightarrow> Lit c # translate cs
         | Some (neg, body, rest) \<Rightarrow> CharClass neg body # translate rest)
      else Lit c # translate cs)"
  by pat_completeness auto
termination
proof (relation "measure length")
  fix c :: char and cs :: string and x2 x y x2a xa ya
  assume a: "scan_class cs = Some x2" "(x, y) = x2" "(xa, ya) = y"
  have d: "length (tl (dropWhile P zs)) \<le> length zs" for P and zs :: string
    using length_dropWhile_le[of P zs] by simp
  have t: "length (tl zs) \<le> length zs" for zs :: string
    by simp
  have "length ya \<le> length cs"
  proof -
    obtain P zs where ya: "ya = tl (dropWhile P zs)" and zs: "zs = cs \<or> zs = tl cs \<or> zs = tl (tl cs)"
      using a by (auto simp: scan_class_def Let_def split: if_splits)
    have "length zs \<le> length cs" using zs by auto
    then show ?thesis using d[of P zs] ya by simp
  qed
  then show "(ya, c # cs) \<in> measure length" by simp
qed auto

fun match_toks :: "glob_tok list \<Rightarrow> string \<Rightarrow> bool" where
  "match_toks [] s = (s = [])"
| "match_toks (Star # ts) [] = match_toks ts []"
| "match_toks (Star # ts) (c # s) = (match_toks ts (c # s) \<or> match_toks (Star # ts) s)"
| "match_toks (AnyChar # ts) [] = False"
| "match_toks (AnyChar # ts) (c # s) = match_toks ts s"
| "match_toks (Lit a # ts) [] = False"
| "match_toks (Lit a # ts) (c # s) = (a = c \<and> match_toks ts s)"
| "match_toks (CharClass neg body # ts) [] = False"
| "match_toks (CharClass neg body # ts) (c # s) = (in_class body c \<noteq> neg \<and> match_toks ts s)"

definition fnmatchcase :: "string \<Rightarrow> string \<Rightarrow> bool" where
  "fnmatchcase name pat = match_toks (translate pat) name"

subsection \<open>\<open>PurePosixPath\<close>: parsing and \<open>match\<close>\<close>

text \<open>\<open>s.split(sep)\<close> for a one-character separator.\<close>

fun split_on :: "char \<Rightarrow> string \<Rightarrow> string list" where
  "split_on sep [] = [[]]"
| "split_on sep (x # xs) =
     (if x = sep then [] # split_on sep xs
      else (case split_on sep xs of [] \<Rightarrow> [[x]] | w # ws \<Rightarrow> (x # w) # ws))"

fun join_sep :: "string \<Rightarrow> string list \<Rightarrow> string" where
  "join_sep sep [] = []"
| "join_sep sep [w] = w"
| "join_sep sep (w # ws) = w @ sep @ join_sep sep ws"

text \<open>
  The root of a POSIX path (\<open>/\<close>, or \<open>//\<close> for exactly two leading slashes) and the rest.
\<close>

definition splitroot :: "string \<Rightarrow> string \<times> string" where
  "splitroot part =
     (if part \<noteq> [] \<and> hd part = CHR ''/'' then
        (let stripped = dropWhile (\<lambda>c. c = CHR ''/'') part
         in if length part - length stripped = 2 then (''//'', stripped) else (''/'', stripped))
      else ([], part))"

text \<open>
  The root and the parts of a path: empty components and \<open>.\<close> are dropped, and the root,
  when there is one, is the first part.
\<close>

definition parse_parts :: "string \<Rightarrow> string \<times> string list" where
  "parse_parts p =
     (let (root, rel) = splitroot p;
          parsed = filter (\<lambda>x. x \<noteq> [] \<and> x \<noteq> ''.'') (split_on (CHR ''/'') rel)
      in (root, (if root \<noteq> [] then [root] else []) @ parsed))"

text \<open>
  \<open>PurePosixPath(path).match(pat)\<close>.  An empty pattern raises \<open>ValueError\<close>: the value
  \<open>None\<close>.  A relative pattern is matched from the right and may be shorter than the path;
  \<open>**\<close> is no recursive wildcard here, it matches one component as \<open>*\<close> does.
\<close>

definition posix_match :: "string \<Rightarrow> string \<Rightarrow> bool option" where
  "posix_match path pat =
     (let (proot, pat_parts) = parse_parts pat;
          (root, parts) = parse_parts path
      in if pat_parts = [] then None
         else if proot \<noteq> [] \<and> proot \<noteq> root then Some False
         else if proot \<noteq> [] then
           (if length pat_parts \<noteq> length parts then Some False
            else Some (list_all (\<lambda>(part, p). fnmatchcase part p) (zip (rev parts) (rev (tl pat_parts)))))
         else if length pat_parts > length parts then Some False
         else Some (list_all (\<lambda>(part, p). fnmatchcase part p) (zip (rev parts) (rev pat_parts))))"

text \<open>\<open>str(PurePosixPath(p).parent)\<close> and \<open>len(PurePosixPath(p).parts)\<close>.\<close>

definition path_str :: "string \<Rightarrow> string list \<Rightarrow> string" where
  "path_str root parts =
     (let s = (if root \<noteq> [] then root @ join_sep ''/'' (tl parts) else join_sep ''/'' parts)
      in if s = [] then ''.'' else s)"

definition path_parent :: "string \<Rightarrow> string" where
  "path_parent p =
     (let (root, parts) = parse_parts p
      in if length parts = 1 \<and> root \<noteq> [] then path_str root parts
         else path_str root (butlast parts))"

definition path_depth :: "string \<Rightarrow> nat" where
  "path_depth p = length (snd (parse_parts p))"

subsection \<open>The two functions of the source\<close>

text \<open>A pattern whose match raises is skipped (\<open>except Exception: continue\<close>).\<close>

fun matches_any :: "string \<Rightarrow> string list \<Rightarrow> bool" where
  "matches_any rel_posix [] = False"
| "matches_any rel_posix (pat # patterns) =
     (case posix_match rel_posix pat of
        Some True \<Rightarrow> True
      | _ \<Rightarrow> matches_any rel_posix patterns)"

definition should_include :: "string \<Rightarrow> string list \<Rightarrow> string list \<Rightarrow> bool" where
  "should_include rel_posix include_globs exclude_globs =
     (if exclude_globs \<noteq> [] \<and> matches_any rel_posix exclude_globs then False
      else if include_globs = [] then True
      else matches_any rel_posix include_globs)"

section \<open>The persistent store\<close>

text \<open>
  The tables that \<open>update_campaign_kb\<close> reads and writes, each a list of rows in insertion
  order, with the columns the statements of the source name.  Identifiers are natural
  numbers; \<open>next_id\<close> is the supply of fresh ones (\<open>RETURNING id\<close>).  Timestamps are
  natural numbers: \<open>now()\<close> is the start time of the transaction, one value for the whole
  run.
\<close>

record campaign_source =
  cs_id :: nat
  cs_campaign_id :: nat
  cs_name :: string
  cs_root_path :: string
  cs_follow_symlinks :: bool
  cs_include_globs :: "string list"
  cs_exclude_globs :: "string list"
  cs_change_detection :: string
  cs_enabled :: bool
  cs_last_scan_at :: "nat option"
  cs_last_ingest_at :: "nat option"

record source_folder =
  fo_id :: nat
  fo_source_id :: nat
  fo_rel_path :: string
  fo_parent_id :: "nat option"
  fo_depth :: nat
  fo_last_seen_at :: nat

record source_file =
  sf_id :: nat
  sf_source_id :: nat
  sf_folder_id :: nat
  sf_rel_path :: string
  sf_ext :: "string option"
  sf_size_bytes :: int
  sf_mtime_epoch :: int
  sf_sha256 :: "string option"
  sf_status :: string
  sf_last_seen_at :: nat
  sf_last_ingested_at :: "nat option"
  sf_last_ingest_status :: string
  sf_error :: "string option"

record kb_document =
  doc_id :: nat
  doc_campaign_id :: nat
  doc_source_file_id :: nat
  doc_type :: string
  doc_title :: string
  doc_body_md :: pystr
  doc_content_hash :: string
  doc_updated_at :: "nat option"

record kb_chunk =
  ch_campaign_id :: nat
  ch_document_id :: nat
  ch_section_path :: string
  ch_chunk_index :: nat
  ch_content :: pystr
  ch_metadata :: string
  ch_embedding_model :: string

record stats =
  sources_total :: nat
  sources_scanned :: nat
  files_seen :: nat
  files_new :: nat
  files_changed :: nat
  files_unchanged :: nat
  files_deleted :: nat
  files_ingested :: nat
  docs_ingested :: nat
  docs_skipped :: nat
  errors :: "string list"

record ingest_run =
  run_id :: nat
  run_campaign_id :: nat
  run_trigger :: string
  run_status :: string
  run_finished_at :: "nat option"
  run_stats :: "stats option"
  run_error :: "string option"

record ingest_run_file =
  irf_run_id :: nat
  irf_file_id :: nat
  irf_action :: string
  irf_status :: string
  irf_reason :: "string option"
  irf_error :: "string option"

record db =
  campaigns :: "nat list"
  campaign_sources :: "campaign_source list"
  source_folders :: "source_folder list"
  source_files :: "source_file list"
  kb_documents :: "kb_document list"
  kb_chunks :: "kb_chunk list"
  ingest_runs :: "ingest_run list"
  ingest_run_files :: "ingest_run_file list"
  next_id :: nat

section \<open>What a run observes of the file system\<close>

text \<open>
  One file met by \<open>os.walk\<close>, with the result of every call the source makes on it:
  its path relative to the root, \<open>full_path.suffix.lower()\<close> and \<open>full_path.stem\<close>,
  \<open>full_path.stat()\<close> (size and whole-second mtime, or the message of the \<open>OSError\<close>),
  \<open>_sha256_file(full_path)\<close> (the digest, or the message of the error raised by opening
  or reading the file) and \<open>full_path.read_text(...)\<close> (the text, or the message of the
  exception).  One directory: its relative path and its files.
\<close>

record file_entry =
  fe_full_path :: string
  fe_rel_path :: string
  fe_suffix :: string
  fe_stem :: string
  fe_stat :: "string + int \<times> int"
  fe_sha256 :: "string + string"
  fe_read_text :: "string + pystr"

record dir_entry =
  de_rel :: string
  de_files :: "file_entry list"

text \<open>
  What the code calls from outside: the hash of a text (\<open>_sha256_text\<close>, that is
  \<open>hashlib\<close>), \<open>Path.exists\<close>, \<open>os.walk\<close> for a root and a \<open>followlinks\<close> flag, and the
  clock of the transaction.
\<close>

record env =
  sha256_text :: "pystr \<Rightarrow> string"
  path_exists :: "string \<Rightarrow> bool"
  os_walk :: "string \<Rightarrow> bool \<Rightarrow> dir_entry list"
  db_now :: nat

datatype exn = ValueError string | OSError string | KeyError string

section \<open>The document materialiser: \<open>_upsert_document_and_chunks\<close>\<close>

text \<open>
  The chunks of a body, with the default window of the source (6000 characters, overlap
  300).  The chunker ends for these parameters (lemma \<open>chunk_text_default\<close> below), so the
  second case is never taken.
\<close>

definition body_chunks :: "pystr \<Rightarrow> pystr list" where
  "body_chunks body = (case chunk_text body 6000 300 of Some cs \<Rightarrow> cs | None \<Rightarrow> [])"

definition insert_chunks :: "db \<Rightarrow> nat \<Rightarrow> nat \<Rightarrow> pystr \<Rightarrow> db" where
  "insert_chunks conn campaign_id document_id body =
     conn\<lparr>kb_chunks := kb_chunks conn @
       map (\<lambda>(idx, ch). \<lparr>ch_campaign_id = campaign_id, ch_document_id = document_id,
                          ch_section_path = [], ch_chunk_index = idx, ch_content = ch,
                          ch_metadata = ''{\"v\": 0}'', ch_embedding_model = ''nomic-embed-text''\<rparr>)
           (enumerate 0 (body_chunks body))\<rparr>"

definition upsert_document_and_chunks ::
  "env \<Rightarrow> db \<Rightarrow> nat \<Rightarrow> nat \<Rightarrow> string \<Rightarrow> string \<Rightarrow> pystr \<Rightarrow> db \<times> nat \<times> string" where
  "upsert_document_and_chunks e conn campaign_id source_file_id title dtype body =
     (let content_hash = sha256_text e body;
          doc_row = find (\<lambda>d. doc_campaign_id d = campaign_id \<and> doc_source_file_id d = source_file_id)
                         (kb_documents conn)
      in case doc_row of
           Some d \<Rightarrow>
             if doc_content_hash d = content_hash then (conn, doc_id d, ''skipped'')
             else
               (let conn1 = conn\<lparr>kb_documents :=
                      map (\<lambda>x. if doc_id x = doc_id d
                                then x\<lparr>doc_title := title, doc_type := dtype, doc_body_md := body,
                                       doc_content_hash := content_hash, doc_updated_at := Some (db_now e)\<rparr>
                                else x) (kb_documents conn)\<rparr>;
                    conn2 = conn1\<lparr>kb_chunks := filter (\<lambda>c. ch_document_id c \<noteq> doc_id d) (kb_chunks conn1)\<rparr>
                in (insert_chunks conn2 campaign_id (doc_id d) body, doc_id d, ''ingested''))
         | None \<Rightarrow>
             (let new_id = next_id conn;
                  conn1 = conn\<lparr>next_id := Suc new_id,
                    kb_documents := kb_documents conn @
                      [\<lparr>doc_id = new_id, doc_campaign_id = campaign_id, doc_source_file_id = source_file_id,
                        doc_type = dtype, doc_title = title, doc_body_md = body,
                        doc_content_hash = content_hash, doc_updated_at = None\<rparr>]\<rparr>
              in (insert_chunks conn1 campaign_id new_id body, new_id, ''ingested'')))"

section \<open>The run coordinator: \<open>update_campaign_kb\<close>\<close>

subsection \<open>The statements on the store\<close>

text \<open>\<open>UPDATE source_files SET ... WHERE id = :id\<close>.\<close>

definition update_file :: "nat \<Rightarrow> (source_file \<Rightarrow> source_file) \<Rightarrow> db \<Rightarrow> db" where
  "update_file i f conn =
     conn\<lparr>source_files := map (\<lambda>r. if sf_id r = i then f r else r) (source_files conn)\<rparr>"

text \<open>
  \<open>INSERT INTO source_folders ... ON CONFLICT (source_id, rel_path) DO UPDATE SET
  last_seen_at = now() RETURNING id\<close>.
\<close>

definition upsert_folder :: "db \<Rightarrow> nat \<Rightarrow> string \<Rightarrow> nat option \<Rightarrow> nat \<Rightarrow> nat \<Rightarrow> nat \<times> db" where
  "upsert_folder conn sid rel parent depth now =
     (case find (\<lambda>f. fo_source_id f = sid \<and> fo_rel_path f = rel) (source_folders conn) of
        Some f \<Rightarrow>
          (fo_id f,
           conn\<lparr>source_folders :=
             map (\<lambda>x. if fo_source_id x = sid \<and> fo_rel_path x = rel then x\<lparr>fo_last_seen_at := now\<rparr> else x)
                 (source_folders conn)\<rparr>)
      | None \<Rightarrow>
          (next_id conn,
           conn\<lparr>next_id := Suc (next_id conn),
                source_folders := source_folders conn @
                  [\<lparr>fo_id = next_id conn, fo_source_id = sid, fo_rel_path = rel,
                    fo_parent_id = parent, fo_depth = depth, fo_last_seen_at = now\<rparr>]\<rparr>))"

text \<open>\<open>UPDATE source_folders SET last_seen_at = now() WHERE source_id = :sid AND rel_path = :rp\<close>.\<close>

definition touch_folder :: "db \<Rightarrow> nat \<Rightarrow> string \<Rightarrow> nat \<Rightarrow> db" where
  "touch_folder conn sid rel now =
     conn\<lparr>source_folders :=
       map (\<lambda>x. if fo_source_id x = sid \<and> fo_rel_path x = rel then x\<lparr>fo_last_seen_at := now\<rparr> else x)
           (source_folders conn)\<rparr>"

text \<open>\<open>INSERT INTO ingest_run_files ... ON CONFLICT (ingest_run_id, source_file_id) DO NOTHING\<close>.\<close>

definition audit_insert :: "ingest_run_file \<Rightarrow> db \<Rightarrow> db" where
  "audit_insert row conn =
     (if \<exists>r \<in> set (ingest_run_files conn). irf_run_id r = irf_run_id row \<and> irf_file_id r = irf_file_id row
      then conn
      else conn\<lparr>ingest_run_files := ingest_run_files conn @ [row]\<rparr>)"

text \<open>
  \<open>INSERT INTO ingest_run_files ... ON CONFLICT (ingest_run_id, source_file_id) DO UPDATE
  SET status='error', error=excluded.error\<close>.
\<close>

definition audit_upsert_error :: "ingest_run_file \<Rightarrow> db \<Rightarrow> db" where
  "audit_upsert_error row conn =
     (if \<exists>r \<in> set (ingest_run_files conn). irf_run_id r = irf_run_id row \<and> irf_file_id r = irf_file_id row
      then conn\<lparr>ingest_run_files :=
             map (\<lambda>r. if irf_run_id r = irf_run_id row \<and> irf_file_id r = irf_file_id row
                       then r\<lparr>irf_status := ''error'', irf_error := irf_error row\<rparr> else r)
                 (ingest_run_files conn)\<rparr>
      else conn\<lparr>ingest_run_files := ingest_run_files conn @ [row]\<rparr>)"

subsection \<open>The state of a run and of the scan of one source\<close>

record run_ctx =
  campaign_id :: nat
  ingest_run_id :: nat
  dry_run :: bool
  force_rehash :: bool
  max_files :: "int option"

text \<open>
  The configuration of the source being scanned and \<open>existing_map\<close>, the dictionary from
  relative path to the prior file row, in insertion order.
\<close>

record src_ctx =
  source_id :: nat
  include_globs :: "string list"
  exclude_globs :: "string list"
  change_detection :: string
  existing_map :: "(string \<times> source_file) list"

text \<open>
  What the walk of one source changes: the store, the counters, \<open>seen_paths\<close>,
  \<open>folder_map\<close> and \<open>files_to_ingest\<close>.
\<close>

record scan =
  sc_db :: db
  sc_stats :: stats
  sc_seen_paths :: "string set"
  sc_folder_map :: "string \<rightharpoonup> nat"
  sc_files_to_ingest :: int

definition add_error :: "string \<Rightarrow> stats \<Rightarrow> stats" where
  "add_error msg st = st\<lparr>errors := errors st @ [msg]\<rparr>"

subsection \<open>Change detection (lines 276 to 287)\<close>

text \<open>
  From the change-detection mode, \<open>force_rehash\<close>, the prior row, the size and mtime on
  disk and the result that \<open>_sha256_file\<close> would give: \<open>is_new\<close>, \<open>changed\<close> and the hash
  to store.  The hash is consulted only in the first branch; there, its failure is not
  caught and ends the run.
\<close>

definition detect_change ::
  "string \<Rightarrow> bool \<Rightarrow> source_file option \<Rightarrow> int \<Rightarrow> int \<Rightarrow> string + string
     \<Rightarrow> exn + bool \<times> bool \<times> string option" where
  "detect_change mode force prev size_bytes mtime_epoch sha_file =
     (let is_new = (prev = None);
          changed_hint = (case prev of None \<Rightarrow> True
                          | Some p \<Rightarrow> sf_size_bytes p \<noteq> size_bytes \<or> sf_mtime_epoch p \<noteq> mtime_epoch);
          sha256 = (case prev of None \<Rightarrow> None | Some p \<Rightarrow> sf_sha256 p)
      in if (mode = ''sha256'' \<or> mode = ''auto'') \<and> (force \<or> changed_hint \<or> is_new) then
           (case sha_file of
              Inl msg \<Rightarrow> Inl (OSError msg)
            | Inr sha256_now \<Rightarrow>
                Inr (is_new,
                     (if (case prev of None \<Rightarrow> False | Some p \<Rightarrow> sf_sha256 p = Some sha256_now)
                      then False else changed_hint),
                     Some sha256_now))
         else Inr (is_new, changed_hint, sha256))"

subsection \<open>One file (lines 258 to 408)\<close>

definition count_verdict :: "bool \<Rightarrow> bool \<Rightarrow> stats \<Rightarrow> stats" where
  "count_verdict is_new changed st =
     (if is_new then st\<lparr>files_new := Suc (files_new st)\<rparr>
      else if changed then st\<lparr>files_changed := Suc (files_changed st)\<rparr>
      else st\<lparr>files_unchanged := Suc (files_unchanged st)\<rparr>)"

text \<open>
  The file row is inserted when there is no prior row and updated otherwise, in a dry run
  as in a live one (lines 299 to 333).
\<close>

definition upsert_source_file ::
  "nat \<Rightarrow> nat \<Rightarrow> source_file option \<Rightarrow> nat \<Rightarrow> string \<Rightarrow> string option \<Rightarrow> int \<Rightarrow> int
     \<Rightarrow> string option \<Rightarrow> db \<Rightarrow> nat \<times> db" where
  "upsert_source_file now sid prev folder_id rel_path ext size_bytes mtime_epoch sha256 conn =
     (case prev of
        None \<Rightarrow>
          (next_id conn,
           conn\<lparr>next_id := Suc (next_id conn),
                source_files := source_files conn @
                  [\<lparr>sf_id = next_id conn, sf_source_id = sid, sf_folder_id = folder_id,
                    sf_rel_path = rel_path, sf_ext = ext, sf_size_bytes = size_bytes,
                    sf_mtime_epoch = mtime_epoch, sf_sha256 = sha256, sf_status = ''seen'',
                    sf_last_seen_at = now, sf_last_ingested_at = None,
                    sf_last_ingest_status = ''never'', sf_error = None\<rparr>]\<rparr>)
      | Some p \<Rightarrow>
          (sf_id p,
           update_file (sf_id p)
             (\<lambda>r. r\<lparr>sf_folder_id := folder_id, sf_ext := ext, sf_size_bytes := size_bytes,
                     sf_mtime_epoch := mtime_epoch, sf_sha256 := sha256, sf_status := ''seen'',
                     sf_last_seen_at := now\<rparr>) conn))"

text \<open>
  The \<open>try\<close> block (lines 339 to 408).  Reading the text is the call that can raise; it
  comes before any statement of the block, and the handler records the failure.
\<close>

definition ingest_file :: "env \<Rightarrow> run_ctx \<Rightarrow> file_entry \<Rightarrow> string option \<Rightarrow> nat \<Rightarrow> scan \<Rightarrow> scan" where
  "ingest_file e rc fe ext source_file_id sc =
     (let sc1 = sc\<lparr>sc_files_to_ingest := sc_files_to_ingest sc + 1\<rparr>
      in case fe_read_text fe of
           Inr body \<Rightarrow>
             (let title = fe_stem fe;
                  dtype = (if ext = Some ''md'' then ''md'' else (case ext of None \<Rightarrow> ''file'' | Some x \<Rightarrow> x));
                  (conn1, _, doc_action) =
                     upsert_document_and_chunks e (sc_db sc1) (campaign_id rc) source_file_id title dtype body;
                  st = sc_stats sc1;
                  st1 = (if doc_action = ''ingested''
                         then st\<lparr>files_ingested := Suc (files_ingested st), docs_ingested := Suc (docs_ingested st)\<rparr>
                         else st\<lparr>docs_skipped := Suc (docs_skipped st)\<rparr>);
                  ingest_status = (if doc_action = ''ingested'' then ''ok'' else ''skipped'');
                  conn2 = update_file source_file_id
                            (\<lambda>r. r\<lparr>sf_last_ingested_at := Some (db_now e),
                                    sf_last_ingest_status := ingest_status, sf_error := None\<rparr>) conn1;
                  conn3 = audit_insert
                            \<lparr>irf_run_id = ingest_run_id rc, irf_file_id = source_file_id,
                             irf_action = ''ingest'', irf_status = ''ok'', irf_reason = None,
                             irf_error = None\<rparr> conn2
              in sc1\<lparr>sc_db := conn3, sc_stats := st1\<rparr>)
         | Inl msg \<Rightarrow>
             (let st1 = add_error (''ingest failed for '' @ fe_rel_path fe @ '': '' @ msg) (sc_stats sc1);
                  conn1 = update_file source_file_id
                            (\<lambda>r. r\<lparr>sf_last_ingested_at := Some (db_now e),
                                    sf_last_ingest_status := ''error'', sf_error := Some (take 5000 msg)\<rparr>)
                            (sc_db sc1);
                  conn2 = audit_upsert_error
                            \<lparr>irf_run_id = ingest_run_id rc, irf_file_id = source_file_id,
                             irf_action = ''ingest'', irf_status = ''error'', irf_reason = None,
                             irf_error = Some (take 5000 msg)\<rparr> conn1
              in sc1\<lparr>sc_db := conn2, sc_stats := st1\<rparr>))"

definition process_file :: "env \<Rightarrow> run_ctx \<Rightarrow> src_ctx \<Rightarrow> string \<Rightarrow> file_entry \<Rightarrow> scan \<Rightarrow> exn + scan" where
  "process_file e rc sx dir_rel fe sc =
     (let rel_path = fe_rel_path fe
      in if \<not> should_include rel_path (include_globs sx) (exclude_globs sx) then Inr sc
         else case fe_stat fe of
           Inl msg \<Rightarrow>
             Inr (sc\<lparr>sc_stats := add_error (''stat failed for '' @ fe_full_path fe @ '': '' @ msg) (sc_stats sc)\<rparr>)
         | Inr (size_bytes, mtime_epoch) \<Rightarrow>
             (let sc1 = sc\<lparr>sc_seen_paths := insert rel_path (sc_seen_paths sc),
                           sc_stats := (sc_stats sc)\<lparr>files_seen := Suc (files_seen (sc_stats sc))\<rparr>\<rparr>;
                  prev = map_of (existing_map sx) rel_path
              in case detect_change (change_detection sx) (force_rehash rc) prev size_bytes mtime_epoch
                        (fe_sha256 fe) of
                   Inl x \<Rightarrow> Inl x
                 | Inr (is_new, changed, sha256) \<Rightarrow>
                     (case sc_folder_map sc1 [] of
                        None \<Rightarrow> Inl (KeyError [])
                      | Some root_folder_id \<Rightarrow>
                          (let folder_id = (case sc_folder_map sc1 dir_rel of
                                              Some f \<Rightarrow> f | None \<Rightarrow> root_folder_id);
                               sfx = dropWhile (\<lambda>c. c = CHR ''.'') (fe_suffix fe);
                               ext = (if sfx = [] then None else Some sfx);
                               sc2 = sc1\<lparr>sc_stats := count_verdict is_new changed (sc_stats sc1)\<rparr>;
                               (source_file_id, conn) =
                                  upsert_source_file (db_now e) (source_id sx) prev folder_id rel_path ext
                                    size_bytes mtime_epoch sha256 (sc_db sc2);
                               sc3 = sc2\<lparr>sc_db := conn\<rparr>
                           in if (is_new \<or> changed) \<and> \<not> dry_run rc then
                                (if (case max_files rc of None \<Rightarrow> False
                                     | Some m \<Rightarrow> sc_files_to_ingest sc3 \<ge> m)
                                 then Inr sc3
                                 else Inr (ingest_file e rc fe ext source_file_id sc3))
                              else Inr sc3))))"

fun process_files :: "env \<Rightarrow> run_ctx \<Rightarrow> src_ctx \<Rightarrow> string \<Rightarrow> file_entry list \<Rightarrow> scan \<Rightarrow> exn + scan" where
  "process_files e rc sx dir_rel [] sc = Inr sc"
| "process_files e rc sx dir_rel (fe # fes) sc =
     (case process_file e rc sx dir_rel fe sc of
        Inl x \<Rightarrow> Inl x
      | Inr sc' \<Rightarrow> process_files e rc sx dir_rel fes sc')"

subsection \<open>One directory (lines 233 to 255) and the walk\<close>

definition visit_dir :: "env \<Rightarrow> src_ctx \<Rightarrow> string \<Rightarrow> scan \<Rightarrow> exn + scan" where
  "visit_dir e sx dir_rel sc =
     (let parent_rel = (if dir_rel = [] then [] else path_parent dir_rel);
          depth = (if dir_rel = [] then 0 else path_depth dir_rel)
      in if sc_folder_map sc dir_rel = None then
           (case sc_folder_map sc [] of
              None \<Rightarrow> Inl (KeyError [])
            | Some root_folder_id \<Rightarrow>
                (let parent_id = (case sc_folder_map sc parent_rel of
                                    Some p \<Rightarrow> p | None \<Rightarrow> root_folder_id);
                     (folder_id, conn) =
                        upsert_folder (sc_db sc) (source_id sx) dir_rel (Some parent_id) depth (db_now e)
                 in Inr (sc\<lparr>sc_db := conn, sc_folder_map := (sc_folder_map sc)(dir_rel \<mapsto> folder_id)\<rparr>)))
         else Inr (sc\<lparr>sc_db := touch_folder (sc_db sc) (source_id sx) dir_rel (db_now e)\<rparr>))"

fun walk_dirs :: "env \<Rightarrow> run_ctx \<Rightarrow> src_ctx \<Rightarrow> dir_entry list \<Rightarrow> scan \<Rightarrow> exn + scan" where
  "walk_dirs e rc sx [] sc = Inr sc"
| "walk_dirs e rc sx (d # ds) sc =
     (case visit_dir e sx (de_rel d) sc of
        Inl x \<Rightarrow> Inl x
      | Inr sc1 \<Rightarrow>
          (case process_files e rc sx (de_rel d) (de_files d) sc1 of
             Inl x \<Rightarrow> Inl x
           | Inr sc2 \<Rightarrow> walk_dirs e rc sx ds sc2))"

subsection \<open>Files that vanished (lines 410 to 425)\<close>

fun mark_missing ::
  "env \<Rightarrow> run_ctx \<Rightarrow> string set \<Rightarrow> (string \<times> source_file) list \<Rightarrow> db \<times> stats \<Rightarrow> db \<times> stats" where
  "mark_missing e rc seen_paths [] (conn, st) = (conn, st)"
| "mark_missing e rc seen_paths ((rel_path, prev) # rest) (conn, st) =
     (if rel_path \<in> seen_paths then mark_missing e rc seen_paths rest (conn, st)
      else
        (let st1 = st\<lparr>files_deleted := Suc (files_deleted st)\<rparr>;
             conn1 = (if \<not> dry_run rc then
                        audit_insert
                          \<lparr>irf_run_id = ingest_run_id rc, irf_file_id = sf_id prev,
                           irf_action = ''delete'', irf_status = ''ok'',
                           irf_reason = Some ''missing_on_disk'', irf_error = None\<rparr>
                          (update_file (sf_id prev)
                             (\<lambda>r. r\<lparr>sf_status := ''deleted'', sf_last_seen_at := db_now e\<rparr>) conn)
                      else conn)
         in mark_missing e rc seen_paths rest (conn1, st1)))"

subsection \<open>One source (lines 174 to 428)\<close>

definition build_existing_map :: "source_file list \<Rightarrow> (string \<times> source_file) list" where
  "build_existing_map existing = fold (\<lambda>r. AList.update (sf_rel_path r) r) existing []"

definition build_folder_map :: "source_folder list \<Rightarrow> (string \<rightharpoonup> nat)" where
  "build_folder_map folder_rows = fold (\<lambda>r m. m(fo_rel_path r \<mapsto> fo_id r)) folder_rows Map.empty"

definition process_source :: "env \<Rightarrow> run_ctx \<Rightarrow> campaign_source \<Rightarrow> db \<times> stats \<Rightarrow> exn + db \<times> stats" where
  "process_source e rc src cs =
     (let conn = fst cs;
          st1 = (snd cs)\<lparr>sources_scanned := Suc (sources_scanned (snd cs))\<rparr>;
          sid = cs_id src;
          conn1 = conn\<lparr>campaign_sources :=
                    map (\<lambda>s. if cs_id s = sid then s\<lparr>cs_last_scan_at := Some (db_now e)\<rparr> else s)
                        (campaign_sources conn)\<rparr>
      in if \<not> path_exists e (cs_root_path src) then
           Inr (conn1, add_error (''Source '' @ [CHR 0x27] @ cs_name src @ [CHR 0x27] @
                                   '' root_path not found: '' @ cs_root_path src) st1)
         else
           (let existing = filter (\<lambda>r. sf_source_id r = sid \<and> sf_status r \<noteq> ''deleted'') (source_files conn1);
                emap = build_existing_map existing;
                folder_rows = filter (\<lambda>r. fo_source_id r = sid) (source_folders conn1);
                fmap = build_folder_map folder_rows;
                (conn2, fmap2) =
                   (if fmap [] = None then
                      (let (root_folder_id, c) = upsert_folder conn1 sid [] None 0 (db_now e)
                       in (c, fmap([] \<mapsto> root_folder_id)))
                    else (touch_folder conn1 sid [] (db_now e), fmap));
                sx = \<lparr>source_id = sid, include_globs = cs_include_globs src,
                      exclude_globs = cs_exclude_globs src,
                      change_detection = cs_change_detection src, existing_map = emap\<rparr>;
                sc0 = \<lparr>sc_db = conn2, sc_stats = st1, sc_seen_paths = {}, sc_folder_map = fmap2,
                       sc_files_to_ingest = 0\<rparr>
            in case walk_dirs e rc sx (os_walk e (cs_root_path src) (cs_follow_symlinks src)) sc0 of
                 Inl x \<Rightarrow> Inl x
               | Inr sc \<Rightarrow>
                   (let (conn3, st3) = mark_missing e rc (sc_seen_paths sc) emap (sc_db sc, sc_stats sc);
                        conn4 = (if \<not> dry_run rc then
                                   conn3\<lparr>campaign_sources :=
                                     map (\<lambda>s. if cs_id s = sid then s\<lparr>cs_last_ingest_at := Some (db_now e)\<rparr> else s)
                                         (campaign_sources conn3)\<rparr>
                                 else conn3)
                    in Inr (conn4, st3))))"

fun process_sources :: "env \<Rightarrow> run_ctx \<Rightarrow> campaign_source list \<Rightarrow> db \<times> stats \<Rightarrow> exn + db \<times> stats" where
  "process_sources e rc [] cs = Inr cs"
| "process_sources e rc (src # srcs) cs =
     (case process_source e rc src cs of
        Inl x \<Rightarrow> Inl x
      | Inr cs' \<Rightarrow> process_sources e rc srcs cs')"

subsection \<open>The run\<close>

record run_result =
  rr_ingest_run_id :: nat
  rr_status :: string
  rr_stats :: stats

definition stats0 :: stats where
  "stats0 = \<lparr>sources_total = 0, sources_scanned = 0, files_seen = 0, files_new = 0,
             files_changed = 0, files_unchanged = 0, files_deleted = 0, files_ingested = 0,
             docs_ingested = 0, docs_skipped = 0, errors = []\<rparr>"

text \<open>The body of the \<open>try\<close> of \<open>update_campaign_kb\<close>: an exception, or the store to commit and the result.\<close>

definition run_body :: "env \<Rightarrow> db \<Rightarrow> nat \<Rightarrow> bool \<Rightarrow> bool \<Rightarrow> int option \<Rightarrow> exn + db \<times> run_result" where
  "run_body e conn cid dry force maxf =
     (if cid \<notin> set (campaigns conn) then Inl (ValueError ''Campaign not found.'')
      else
        (let rid = next_id conn;
             conn1 = conn\<lparr>next_id := Suc rid,
                          ingest_runs := ingest_runs conn @
                            [\<lparr>run_id = rid, run_campaign_id = cid, run_trigger = ''api'',
                              run_status = ''running'', run_finished_at = None, run_stats = None,
                              run_error = None\<rparr>]\<rparr>;
             sources = filter (\<lambda>s. cs_campaign_id s = cid \<and> cs_enabled s) (campaign_sources conn1);
             st = stats0\<lparr>sources_total := length sources\<rparr>;
             rc = \<lparr>campaign_id = cid, ingest_run_id = rid, dry_run = dry, force_rehash = force,
                   max_files = maxf\<rparr>
         in case process_sources e rc sources (conn1, st) of
              Inl x \<Rightarrow> Inl x
            | Inr (conn2, st2) \<Rightarrow>
                (let status = (if errors st2 = [] then ''ok'' else ''partial'');
                     conn3 = conn2\<lparr>ingest_runs :=
                               map (\<lambda>r. if run_id r = rid
                                         then r\<lparr>run_finished_at := Some (db_now e), run_status := status,
                                                run_stats := Some st2,
                                                run_error := (if errors st2 \<noteq> []
                                                              then Some (take 5000 (join_sep [CHR 0x0A] (errors st2)))
                                                              else None)\<rparr>
                                         else r) (ingest_runs conn2)\<rparr>
                 in Inr (conn3, \<lparr>rr_ingest_run_id = rid, rr_status = status, rr_stats = st2\<rparr>))))"

text \<open>
  \<open>update_campaign_kb\<close>: on an exception the transaction is rolled back (the store is the
  one before the call) and the exception is raised again; otherwise the store is committed
  and the result returned.
\<close>

definition update_campaign_kb ::
  "env \<Rightarrow> db \<Rightarrow> nat \<Rightarrow> bool \<Rightarrow> bool \<Rightarrow> int option \<Rightarrow> db \<times> (exn + run_result)" where
  "update_campaign_kb e conn cid dry force maxf =
     (case run_body e conn cid dry force maxf of
        Inl x \<Rightarrow> (conn, Inl x)
      | Inr (conn', r) \<Rightarrow> (conn', Inr r))"

subsection \<open>The route \<open>kb_update\<close> (app/api/routes.py)\<close>

datatype response = Ok200 run_result | HTTPException nat string | Unhandled exn

definition kb_update :: "env \<Rightarrow> db \<Rightarrow> nat \<Rightarrow> bool \<Rightarrow> bool \<Rightarrow> int option \<Rightarrow> db \<times> response" where
  "kb_update e conn cid dry force maxf =
     (case update_campaign_kb e conn cid dry force maxf of
        (conn', Inr r) \<Rightarrow> (conn', Ok200 r)
      | (conn', Inl (ValueError msg)) \<Rightarrow> (conn', HTTPException 400 msg)
      | (conn', Inl x) \<Rightarrow> (conn', Unhandled x))"

chapter \<open>Properties\<close>

section \<open>The chunker\<close>

lemma py_slice_nat:
  "0 \<le> i \<Longrightarrow> i \<le> j \<Longrightarrow> j \<le> int (length s) \<Longrightarrow>
   py_slice s i j = take (nat j - nat i) (drop (nat i) s)"
  by (simp add: py_slice_def py_index_def min_def)

text \<open>The three ways through one round of the loop, as conditional equations.\<close>

lemma chunk_loop_stop:
  "\<not> i < int (length s) \<Longrightarrow> chunk_loop s max_chars overlap i out = Some out"
  by (subst chunk_loop.simps) simp

lemma chunk_loop_last:
  "i < int (length s) \<Longrightarrow> int (length s) \<le> i + max_chars \<Longrightarrow>
   chunk_loop s max_chars overlap i out = Some (out @ [py_slice s i (int (length s))])"
  by (subst chunk_loop.simps) (simp add: Let_def min_def)

lemma chunk_loop_step:
  "i < int (length s) \<Longrightarrow> i + max_chars < int (length s) \<Longrightarrow>
   chunk_loop s max_chars overlap i out =
   chunk_loop s max_chars overlap (max 0 (i + max_chars - overlap)) (out @ [py_slice s i (i + max_chars)])"
  by (subst chunk_loop.simps) (simp add: Let_def min_def)

text \<open>
  The loop started at a position inside the text ends, and what it appends covers the
  rest of the text: the first new fragment is the window at \<open>i\<close>, the fragments without
  their overlaps give the text from \<open>i\<close> on, none is empty and all but the last are full.
\<close>

lemma chunk_loop_correct:
  assumes ov: "0 \<le> overlap" "overlap < max_chars"
  shows "0 \<le> i \<Longrightarrow> i < int (length s) \<Longrightarrow>
     \<exists>cs. chunk_loop s max_chars overlap i out = Some (out @ cs) \<and> cs \<noteq> [] \<and>
          hd cs = take (nat max_chars) (drop (nat i) s) \<and>
          dechunk (nat overlap) cs = drop (nat i) s \<and> [] \<notin> set cs \<and>
          (\<forall>c \<in> set (butlast cs). length c = nat max_chars)"
proof (induction "length s - nat i" arbitrary: i out rule: less_induct)
  case less
  let ?n = "int (length s)"
  let ?j = "min ?n (i + max_chars)"
  let ?c = "take (nat max_chars) (drop (nat i) s)"
  have sl: "py_slice s i ?j = ?c"
  proof (cases "?n \<le> i + max_chars")
    case True
    then have "py_slice s i ?j = drop (nat i) s"
      using less.prems by (simp add: py_slice_nat min_def)
    moreover have "length (drop (nat i) s) \<le> nat max_chars" using True less.prems by auto
    ultimately show ?thesis by simp
  next
    case False
    have "nat (i + max_chars) - nat i = nat max_chars" using less.prems ov by auto
    then show ?thesis using False less.prems ov by (simp add: py_slice_nat min_def)
  qed
  have cne: "?c \<noteq> []" using less.prems ov by auto
  show ?case
  proof (cases "?j \<ge> ?n")
    case True
    then have full: "?c = drop (nat i) s" using less.prems ov by auto
    have "chunk_loop s max_chars overlap i out = Some (out @ [?c])"
      using True less.prems sl by (subst chunk_loop.simps) (simp add: Let_def)
    with cne full show ?thesis by (auto simp: dechunk_def)
  next
    case False
    then have j: "?j = i + max_chars" "i + max_chars < ?n" by auto
    let ?i' = "i + max_chars - overlap"
    have i': "0 \<le> ?i'" "?i' < ?n" "nat i < nat ?i'" using j ov less.prems by auto
    have m: "length s - nat ?i' < length s - nat i" using i' less.prems by auto
    from less.hyps[OF m i'(1) i'(2), of "out @ [?c]"] obtain cs where
      cs: "chunk_loop s max_chars overlap ?i' (out @ [?c]) = Some ((out @ [?c]) @ cs)"
        "cs \<noteq> []" "hd cs = take (nat max_chars) (drop (nat ?i') s)"
        "dechunk (nat overlap) cs = drop (nat ?i') s" "[] \<notin> set cs"
        "\<forall>c \<in> set (butlast cs). length c = nat max_chars" by blast
    have step: "chunk_loop s max_chars overlap i out = Some (out @ (?c # cs))"
      using False less.prems sl cs(1) j ov
      by (subst chunk_loop.simps) (simp add: Let_def max_def)
    have lenc: "length ?c = nat max_chars" using j less.prems ov by auto
    obtain c1 rest where c1: "cs = c1 # rest" using cs(2) by (cases cs) auto
    have lc1: "nat overlap \<le> length c1" using cs(3) c1 j ov less.prems i' by auto
    have "drop (nat overlap) (dechunk (nat overlap) cs) = concat (map (drop (nat overlap)) cs)"
      using c1 lc1 by (simp add: dechunk_def)
    then have "concat (map (drop (nat overlap)) cs) = drop (nat overlap + nat ?i') s"
      using cs(4) by simp
    moreover have "nat overlap + nat ?i' = nat max_chars + nat i" using ov less.prems by auto
    ultimately have "concat (map (drop (nat overlap)) cs) = drop (nat max_chars + nat i) s"
      by (simp only:)
    then have "concat (map (drop (nat overlap)) cs) = drop (nat max_chars) (drop (nat i) s)"
      by (simp only: drop_drop)
    moreover have "?c @ drop (nat max_chars) (drop (nat i) s) = drop (nat i) s"
      by (rule append_take_drop_id)
    ultimately have d: "dechunk (nat overlap) (?c # cs) = drop (nat i) s"
      by (simp only: dechunk_def list.case)
    have b: "\<forall>c \<in> set (butlast (?c # cs)). length c = nat max_chars"
      using cs(6) cs(2) lenc by auto
    have e: "[] \<notin> set (?c # cs)" using cne cs(5) by simp
    have h: "hd (?c # cs) = ?c" by simp
    show ?thesis
      apply (rule exI[of _ "?c # cs"])
      apply (intro conjI)
           apply (rule step)
          apply simp
         apply (rule h)
        apply (rule d)
       apply (rule e)
      apply (rule b)
      done
  qed
qed

lemma chunk_text_total:
  assumes "0 \<le> overlap" "overlap < max_chars"
  shows "\<exists>cs. chunk_text t max_chars overlap = Some cs \<and>
           dechunk (nat overlap) cs = py_strip t \<and>
           (py_strip t = [] \<longrightarrow> cs = []) \<and> [] \<notin> set cs \<and>
           (\<forall>c \<in> set (butlast cs). length c = nat max_chars)"
proof (cases "py_strip t = []")
  case True
  then show ?thesis by (simp add: chunk_text_def dechunk_def)
next
  case False
  then have "(0::int) < int (length (py_strip t))" by simp
  from chunk_loop_correct[OF assms, of 0 "py_strip t" "[]"] this
  show ?thesis using False by (auto simp: chunk_text_def)
qed

text \<open>With the window of the source (6000, overlap 300) the chunker always returns.\<close>

lemma chunk_text_default: "\<exists>cs. chunk_text body 6000 300 = Some cs"
  using chunk_text_total[of 300 6000 body] by auto

lemma body_chunks_eq: "chunk_text body 6000 300 = Some (body_chunks body)"
  using chunk_text_default[of body] by (auto simp: body_chunks_def)

text \<open>
  Claim C8.  For every text and every \<open>max_chars > overlap \<ge> 0\<close> the chunker returns a
  list of fragments; concatenating them in order, every fragment after the first without
  its first \<open>overlap\<close> characters, gives the trimmed text exactly; every fragment before
  the last is a full window; a text that is empty once trimmed gives no fragment; and no
  fragment is empty, so there is no trailing empty fragment.
\<close>

theorem chunk_text_reconstruct:
  assumes "0 \<le> overlap" and "overlap < max_chars"
  shows "\<exists>cs. chunk_text t max_chars overlap = Some cs \<and>
           dechunk (nat overlap) cs = py_strip t \<and>
           (py_strip t = [] \<longrightarrow> cs = []) \<and> [] \<notin> set cs \<and>
           (\<forall>c \<in> set (butlast cs). length c = nat max_chars)"
  using assms by (rule chunk_text_total)

theorem chunk_text_reconstruct_witness:
  "(0::int) \<le> 1 \<and> (1::int) < 4 \<and>
   (\<exists>cs. chunk_text [32, 104, 101, 108, 108, 111, 32, 119, 111, 32] 4 1 = Some cs \<and>
          dechunk (nat 1) cs = py_strip [32, 104, 101, 108, 108, 111, 32, 119, 111, 32] \<and>
          (py_strip [32, 104, 101, 108, 108, 111, 32, 119, 111, 32] = [] \<longrightarrow> cs = []) \<and>
          [] \<notin> set cs \<and> (\<forall>c \<in> set (butlast cs). length c = nat 4))"
  using chunk_text_reconstruct[of 1 4 "[32, 104, 101, 108, 108, 111, 32, 119, 111, 32]"] by simp

text \<open>The same text, evaluated: three fragments, each sharing one character with the one before.\<close>

lemma chunk_text_example:
  "chunk_text [32, 104, 101, 108, 108, 111, 32, 119, 111, 32] 4 1 =
     Some [[104, 101, 108, 108], [108, 111, 32, 119], [119, 111]]"
  by (simp add: chunk_text_def py_strip_def py_isspace_def chunk_loop_last chunk_loop_step
        py_slice_def py_index_def)

section \<open>The glob matcher\<close>

lemma matches_any_iff:
  "matches_any rel pats \<longleftrightarrow> (\<exists>pat \<in> set pats. posix_match rel pat = Some True)"
  by (induction pats) (auto split: option.splits bool.splits)

text \<open>
  The structure of the decision: an exclude match forces \<open>False\<close>, an empty include list
  gives \<open>True\<close>, otherwise some include pattern must match.  A pattern whose match raises
  (\<open>None\<close>) counts as no match, and the function has a value for every input.
\<close>

lemma should_include_iff:
  "should_include rel inc exc \<longleftrightarrow>
     \<not> (\<exists>pat \<in> set exc. posix_match rel pat = Some True) \<and>
     (inc = [] \<or> (\<exists>pat \<in> set inc. posix_match rel pat = Some True))"
  by (auto simp: should_include_def matches_any_iff)

lemma matches_any_skips_raising:
  "posix_match rel pat = None \<Longrightarrow> matches_any rel (pat # pats) = matches_any rel pats"
  by simp

lemma posix_match_empty_pattern: "posix_match rel [] = None"
  by (simp add: posix_match_def parse_parts_def splitroot_def)

text \<open>
  Claim C3, on the code.  With includes \<open>**/*.md\<close> and excludes \<open>**/.git/**\<close> the code
  leaves out \<open>a.md\<close> (the pattern has two components, the path one) and \<open>b.txt\<close>, and lets
  \<open>.git/c.md\<close> in (the exclude pattern has three components, the path two, and the include
  pattern matches it): \<open>PurePosixPath.match\<close> takes \<open>**\<close> for one component.  The claim
  expects exactly \<open>a.md\<close> to be included.
\<close>

theorem should_include_scenario:
  "should_include ''a.md'' [''**/*.md''] [''**/.git/**''] = False \<and>
   should_include ''b.txt'' [''**/*.md''] [''**/.git/**''] = False \<and>
   should_include ''.git/c.md'' [''**/*.md''] [''**/.git/**''] = True"
  by (simp add: should_include_def posix_match_def parse_parts_def splitroot_def fnmatchcase_def
        scan_class_def)

end
